theory Spec2Isabelle
  imports Main "HOL-Library.Word"
begin

unbundle bit_operations_syntax

section \<open>MonitorKeeper: the window-placement cache of MonitorKeeper.cpp\<close>

text \<open>
  The embedding follows \<^verbatim>\<open>src/MonitorKeeper.cpp\<close>. The classes \<^verbatim>\<open>SavedWindowData\<close> and
  \<^verbatim>\<open>InstanceData\<close> are records, their methods take the object and return the updated
  object. Calls into the windowing system that only read are fields of an environment
  record (a fake of the host, one value per point in time); the one call that writes,
  \<^verbatim>\<open>SetWindowPlacement\<close>, is returned as a call log in the order of the calls.

  C++ \<^verbatim>\<open>int\<close> is modelled by \<open>int\<close>: the only arithmetic on it is the increment of
  \<^verbatim>\<open>m_nUnusedCount\<close>, guarded by \<^verbatim>\<open>< 100\<close>, the subtraction
  \<^verbatim>\<open>NumMonitors - MIN_MONITORTORESTORE\<close>, guarded by the range test, and the growth of
  \<^verbatim>\<open>_WindowDataLength\<close> by 32, which is the length of the list here. Allocation with
  \<^verbatim>\<open>new\<close> is taken to succeed.
\<close>

subsection \<open>Constants\<close>

definition MAX_MONITORS :: int where "MAX_MONITORS = 5"
definition MIN_MONITORTORESTORE :: int where "MIN_MONITORTORESTORE = 2"

text \<open>
  The macros below come from the Windows headers, which are not part of the repository;
  they carry the values of \<^verbatim>\<open>winuser.h\<close>. \<^verbatim>\<open>SW_NORMAL\<close> and \<^verbatim>\<open>SW_SHOWNORMAL\<close> are the
  same value there, as are \<^verbatim>\<open>SW_MAXIMIZE\<close> and \<^verbatim>\<open>SW_SHOWMAXIMIZED\<close>. The general
  theorems use of the show states only that they are pairwise distinct; the style masks
  and event numbers matter only where a concrete run evaluates the window filter.
\<close>

definition SW_NORMAL :: nat where "SW_NORMAL = 1"
definition SW_SHOWMINIMIZED :: nat where "SW_SHOWMINIMIZED = 2"
definition SW_MAXIMIZE :: nat where "SW_MAXIMIZE = 3"
definition SW_SHOWNOACTIVATE :: nat where "SW_SHOWNOACTIVATE = 4"
definition SW_MINIMIZE :: nat where "SW_MINIMIZE = 6"
definition SW_SHOWMINNOACTIVE :: nat where "SW_SHOWMINNOACTIVE = 7"

definition WPF_ASYNCWINDOWPLACEMENT :: nat where "WPF_ASYNCWINDOWPLACEMENT = 4"

definition WS_OVERLAPPEDWINDOW :: "32 word" where "WS_OVERLAPPEDWINDOW = 0x00CF0000"
definition WS_EX_APPWINDOW :: "32 word" where "WS_EX_APPWINDOW = 0x00040000"
definition WS_EX_NOACTIVATE :: "32 word" where "WS_EX_NOACTIVATE = 0x08000000"

definition EVENT_SYSTEM_MOVESIZEEND :: "32 word" where "EVENT_SYSTEM_MOVESIZEEND = 0x000B"
definition EVENT_OBJECT_LOCATIONCHANGE :: "32 word" where "EVENT_OBJECT_LOCATIONCHANGE = 0x800B"

subsection \<open>Data\<close>

text \<open>A window handle; \<^verbatim>\<open>NULL\<close> is 0.\<close>

type_synonym HWND = nat

definition NULL :: HWND where "NULL = 0"

record POINT =
  pt_x :: int
  pt_y :: int

record RECT =
  rc_left :: int
  rc_top :: int
  rc_right :: int
  rc_bottom :: int

text \<open>The structure \<^verbatim>\<open>WINDOWPLACEMENT\<close> of the Windows headers, field by field.\<close>

record WINDOWPLACEMENT =
  length_wp :: nat
  flags :: nat
  showCmd :: nat
  ptMinPosition :: POINT
  ptMaxPosition :: POINT
  rcNormalPosition :: RECT

definition sizeof_WINDOWPLACEMENT :: nat where "sizeof_WINDOWPLACEMENT = 44"

text \<open>
  \<^verbatim>\<open>SavedWindowData\<close>. The array \<^verbatim>\<open>m_windowPlacement\<close> has
  \<^verbatim>\<open>MAX_MONITORS - MIN_MONITORTORESTORE + 1 = 4\<close> elements; it is a function of the index,
  read and written at indices 0 to 3 only (every access is behind the range test on
  \<^verbatim>\<open>NumMonitors\<close>).
\<close>

record SavedWindowData =
  m_nUnusedCount :: int
  m_windowPlacement :: "nat \<Rightarrow> WINDOWPLACEMENT"
  m_hwnd :: HWND
  m_wndClass :: string

text \<open>
  The environment: what the windowing system answers at one moment.
  \<^verbatim>\<open>RealGetWindowClass\<close> is the string the call leaves in a 40-character buffer,
  \<^verbatim>\<open>GetWindowPlacement\<close> is \<open>None\<close> when the call fails and leaves the structure as it
  was, \<^verbatim>\<open>EnumDesktopWindows\<close> lists the windows in the order the callback sees them, and
  \<^verbatim>\<open>uninitialised\<close> is the content of the placement array of the \<open>k\<close>-th freshly
  allocated \<^verbatim>\<open>SavedWindowData\<close>, which the constructor does not write.
\<close>

record Env =
  SM_CMONITORS :: int
  IsWindow :: "HWND \<Rightarrow> bool"
  IsWindowVisible :: "HWND \<Rightarrow> bool"
  GetParent :: "HWND \<Rightarrow> HWND"
  GWL_STYLE :: "HWND \<Rightarrow> 32 word"
  GWL_EXSTYLE :: "HWND \<Rightarrow> 32 word"
  RealGetWindowClass :: "HWND \<Rightarrow> string"
  GetWindowPlacement :: "HWND \<Rightarrow> WINDOWPLACEMENT option"
  EnumDesktopWindows :: "HWND list"
  uninitialised :: "nat \<Rightarrow> nat \<Rightarrow> WINDOWPLACEMENT"

text \<open>A call \<^verbatim>\<open>SetWindowPlacement(hwnd, &placement)\<close>, with the structure as passed.\<close>

type_synonym SetWindowPlacement_call = "HWND \<times> WINDOWPLACEMENT"

subsection \<open>SavedWindowData\<close>

text \<open>The constructor: it leaves \<^verbatim>\<open>m_windowPlacement\<close> as the memory holds it.\<close>

definition SavedWindowData_ctor :: "(nat \<Rightarrow> WINDOWPLACEMENT) \<Rightarrow> SavedWindowData" where
  "SavedWindowData_ctor mem =
     \<lparr>m_nUnusedCount = 1, m_windowPlacement = mem, m_hwnd = NULL, m_wndClass = []\<rparr>"

text \<open>
  \<^verbatim>\<open>SetData\<close>: the handle, the counter and the class are written before the range test.
\<close>

definition SetData :: "Env \<Rightarrow> SavedWindowData \<Rightarrow> HWND \<Rightarrow> int \<Rightarrow> SavedWindowData \<times> bool" where
  "SetData env d hwnd nMonitors =
     (let d1 = d\<lparr>m_hwnd := hwnd, m_nUnusedCount := 0,
                  m_wndClass := RealGetWindowClass env hwnd\<rparr>
      in if nMonitors < MIN_MONITORTORESTORE \<or> nMonitors > MAX_MONITORS then (d1, False)
         else
           let i = nat (nMonitors - MIN_MONITORTORESTORE);
               wp = (m_windowPlacement d1 i)\<lparr>length_wp := sizeof_WINDOWPLACEMENT\<rparr>;
               wp' = (case GetWindowPlacement env hwnd of Some p \<Rightarrow> p | None \<Rightarrow> wp)
           in (d1\<lparr>m_windowPlacement := (m_windowPlacement d1)(i := wp')\<rparr>, True))"

text \<open>
  \<^verbatim>\<open>RestoreWindow\<close>: \<^verbatim>\<open>place\<close> points into the array, so every write to it is a write to
  the stored snapshot. The result is the object and the calls of
  \<^verbatim>\<open>SetWindowPlacement\<close>, each with the snapshot as it is at the call. The test
  \<^verbatim>\<open>lstrcmp(szTempClass, m_wndClass) == 0\<close> is equality of the two strings.
\<close>

definition RestoreWindow ::
    "Env \<Rightarrow> SavedWindowData \<Rightarrow> int \<Rightarrow> SavedWindowData \<times> SetWindowPlacement_call list" where
  "RestoreWindow env d nMonitors =
     (if nMonitors \<ge> MIN_MONITORTORESTORE \<and> nMonitors \<le> MAX_MONITORS then
        let i = nat (nMonitors - MIN_MONITORTORESTORE) in
        if IsWindow env (m_hwnd d) \<and>
           length_wp (m_windowPlacement d i) = sizeof_WINDOWPLACEMENT then
          if RealGetWindowClass env (m_hwnd d) = m_wndClass d then
            let place = (m_windowPlacement d i)\<lparr>flags := WPF_ASYNCWINDOWPLACEMENT\<rparr> in
            if showCmd place = SW_MAXIMIZE then
              let p1 = place\<lparr>showCmd := SW_SHOWNOACTIVATE\<rparr>;
                  p2 = p1\<lparr>showCmd := SW_MAXIMIZE\<rparr>
              in (d\<lparr>m_windowPlacement := (m_windowPlacement d)(i := p2)\<rparr>,
                  [(m_hwnd d, p1), (m_hwnd d, p2)])
            else
              let p1 = (if showCmd place = SW_MINIMIZE \<or> showCmd place = SW_SHOWMINIMIZED
                        then place\<lparr>showCmd := SW_SHOWMINNOACTIVE\<rparr>
                        else if showCmd place = SW_NORMAL
                        then place\<lparr>showCmd := SW_SHOWNOACTIVATE\<rparr>
                        else place)
              in (d\<lparr>m_windowPlacement := (m_windowPlacement d)(i := p1)\<rparr>,
                  [(m_hwnd d, p1)])
          else (d, [])
        else (d, [])
      else (d, []))"

subsection \<open>InstanceData\<close>

text \<open>
  \<^verbatim>\<open>_WindowData\<close> with \<^verbatim>\<open>_WindowDataLength\<close> is a list and its length. The hook, the
  main window and the debug log play no part in the cache and are left out.
\<close>

record InstanceData =
  WindowData :: "SavedWindowData list"
  NumMonitors :: int
  InChangingState :: bool

definition new_SavedWindowData :: "Env \<Rightarrow> nat \<Rightarrow> nat \<Rightarrow> SavedWindowData list" where
  "new_SavedWindowData env from n =
     map (\<lambda>k. SavedWindowData_ctor (uninitialised env k)) [from ..< from + n]"

definition InstanceData_ctor :: "Env \<Rightarrow> InstanceData" where
  "InstanceData_ctor env =
     \<lparr>WindowData = new_SavedWindowData env 0 32, NumMonitors = 1, InChangingState = False\<rparr>"

definition TagWindowsUnused :: "InstanceData \<Rightarrow> InstanceData" where
  "TagWindowsUnused s =
     s\<lparr>WindowData :=
         map (\<lambda>d. if m_hwnd d \<noteq> NULL \<and> m_nUnusedCount d < 100
                  then d\<lparr>m_nUnusedCount := m_nUnusedCount d + 1\<rparr> else d)
             (WindowData s)\<rparr>"

fun restore_loop ::
    "Env \<Rightarrow> int \<Rightarrow> SavedWindowData list \<Rightarrow> SavedWindowData list \<times> SetWindowPlacement_call list" where
  "restore_loop env monitors [] = ([], [])"
| "restore_loop env monitors (d # ds) =
     (let (d', cs) = (if m_hwnd d \<noteq> NULL \<and> m_nUnusedCount d \<le> 2
                      then RestoreWindow env d monitors else (d, []));
          (ds', cs') = restore_loop env monitors ds
      in (d' # ds', cs @ cs'))"

definition RestoreWindowPositions ::
    "Env \<Rightarrow> InstanceData \<Rightarrow> int \<Rightarrow> InstanceData \<times> SetWindowPlacement_call list" where
  "RestoreWindowPositions env s monitors =
     (let (ds, cs) = restore_loop env monitors (WindowData s) in (s\<lparr>WindowData := ds\<rparr>, cs))"

text \<open>The index of the first element a loop \<^verbatim>\<open>for (i = 0; i < n; i++) if (P) return\<close> stops at.\<close>

primrec first_index :: "('a \<Rightarrow> bool) \<Rightarrow> 'a list \<Rightarrow> nat option" where
  "first_index P [] = None"
| "first_index P (a # as) = (if P a then Some 0 else map_option Suc (first_index P as))"

text \<open>
  \<^verbatim>\<open>FindWindowSlot\<close> returns a pointer into \<^verbatim>\<open>_WindowData\<close>: here the store, which the
  third case replaces, and the index of the slot.
\<close>

definition FindWindowSlot :: "Env \<Rightarrow> InstanceData \<Rightarrow> HWND \<Rightarrow> InstanceData \<times> nat" where
  "FindWindowSlot env s hwnd =
     (case first_index (\<lambda>d. m_hwnd d = hwnd) (WindowData s) of
        Some i \<Rightarrow> (s, i)
      | None \<Rightarrow>
         (case first_index (\<lambda>d. m_hwnd d = NULL \<or> m_nUnusedCount d > 2) (WindowData s) of
            Some i \<Rightarrow> (s, i)
          | None \<Rightarrow>
              let n = length (WindowData s);
                  newlength = n + 32;
                  newdata = new_SavedWindowData env 0 newlength;
                  copied = WindowData s @ drop n newdata
              in (s\<lparr>WindowData := copied\<rparr>, n)))"

subsection \<open>The callbacks\<close>

definition SaveWindowsCallback :: "Env \<Rightarrow> int \<Rightarrow> InstanceData \<Rightarrow> HWND \<Rightarrow> InstanceData" where
  "SaveWindowsCallback env monitors s hwnd =
     (if IsWindowVisible env hwnd \<and> GetParent env hwnd = NULL then
        let dwStyle = GWL_STYLE env hwnd; dwExStyle = GWL_EXSTYLE env hwnd in
        if ((dwStyle AND WS_OVERLAPPEDWINDOW) \<noteq> 0 \<or> (dwExStyle AND WS_EX_APPWINDOW) \<noteq> 0)
           \<and> (dwExStyle AND WS_EX_NOACTIVATE) = 0 then
          let (s', i) = FindWindowSlot env s hwnd;
              (d, ok) = SetData env (WindowData s' ! i) hwnd monitors
          in s'\<lparr>WindowData := (WindowData s')[i := d]\<rparr>
        else s
      else s)"

definition ProcessMonitors ::
    "Env \<Rightarrow> InstanceData \<Rightarrow> InstanceData \<times> SetWindowPlacement_call list" where
  "ProcessMonitors env s =
     (let monitors = SM_CMONITORS env;
          (s', cs) = (if monitors > 1 \<and> NumMonitors s \<noteq> monitors
                      then RestoreWindowPositions env s monitors else (s, []))
      in (s'\<lparr>NumMonitors := monitors, InChangingState := False\<rparr>, cs))"

definition ProcessDesktopWindows :: "Env \<Rightarrow> InstanceData \<Rightarrow> InstanceData" where
  "ProcessDesktopWindows env s =
     (let monitors = SM_CMONITORS env in
      if monitors \<noteq> NumMonitors s then s
      else foldl (SaveWindowsCallback env monitors) (TagWindowsUnused s) (EnumDesktopWindows env))"

subsection \<open>Messages and timers\<close>

text \<open>
  All callbacks run on the one thread that services the message queue, so the program is a
  state machine over the messages it is sent. \<^verbatim>\<open>SetTimer\<close> on an identifier arms (or
  re-arms) that timer, and each timer callback ends with \<^verbatim>\<open>KillTimer\<close> on its own
  identifier: a timer is a flag that says whether it is armed. \<^verbatim>\<open>saveTimer\<close> is timer 2
  (200 ms, \<^verbatim>\<open>SaveTimerCallback\<close>), \<^verbatim>\<open>restoreTimer\<close> is timer 99 (500 ms,
  \<^verbatim>\<open>TimerCallback\<close>). \<^verbatim>\<open>placed\<close> is the log of \<^verbatim>\<open>SetWindowPlacement\<close> calls so far.
\<close>

record World =
  g_Instance :: InstanceData
  saveTimer :: bool
  restoreTimer :: bool
  placed :: "SetWindowPlacement_call list"

datatype Message =
    WM_DISPLAYCHANGE
  | WinEvent "32 word" HWND
  | WM_TIMER_2
  | WM_TIMER_99

definition WinEventProcCallback :: "World \<Rightarrow> 32 word \<Rightarrow> HWND \<Rightarrow> World" where
  "WinEventProcCallback w dwEvent hwnd =
     (if InChangingState (g_Instance w) then w
      else if hwnd \<noteq> NULL \<and>
              (dwEvent = EVENT_SYSTEM_MOVESIZEEND \<or> dwEvent = EVENT_OBJECT_LOCATIONCHANGE)
      then w\<lparr>saveTimer := True\<rparr>
      else w)"

definition SaveTimerCallback :: "Env \<Rightarrow> World \<Rightarrow> World" where
  "SaveTimerCallback env w =
     w\<lparr>g_Instance := ProcessDesktopWindows env (g_Instance w), saveTimer := False\<rparr>"

definition TimerCallback :: "Env \<Rightarrow> World \<Rightarrow> World" where
  "TimerCallback env w =
     (let (s, cs) = ProcessMonitors env (g_Instance w)
      in w\<lparr>g_Instance := s, restoreTimer := False, placed := placed w @ cs\<rparr>)"

text \<open>The \<^verbatim>\<open>WM_DISPLAYCHANGE\<close> case of \<^verbatim>\<open>WndProc\<close>.\<close>

definition WndProc_DISPLAYCHANGE :: "World \<Rightarrow> World" where
  "WndProc_DISPLAYCHANGE w =
     w\<lparr>g_Instance := (g_Instance w)\<lparr>InChangingState := True\<rparr>, restoreTimer := True\<rparr>"

text \<open>
  \<^verbatim>\<open>InitInstance\<close>, started from the constructor of \<^verbatim>\<open>g_Instance\<close>: one sweep, then the
  monitor count is stored. (When the main window cannot be created the program ends.)
\<close>

definition InitInstance :: "Env \<Rightarrow> World" where
  "InitInstance env =
     \<lparr>g_Instance = (ProcessDesktopWindows env (InstanceData_ctor env))
                      \<lparr>NumMonitors := SM_CMONITORS env\<rparr>,
      saveTimer = False, restoreTimer = False, placed = []\<rparr>"

text \<open>One message, delivered with the environment as it is then. A timer message is
  delivered only while its timer is armed.\<close>

fun dispatch :: "World \<Rightarrow> Env \<times> Message \<Rightarrow> World" where
  "dispatch w (env, WM_DISPLAYCHANGE) = WndProc_DISPLAYCHANGE w"
| "dispatch w (env, WinEvent dwEvent hwnd) = WinEventProcCallback w dwEvent hwnd"
| "dispatch w (env, WM_TIMER_2) = (if saveTimer w then SaveTimerCallback env w else w)"
| "dispatch w (env, WM_TIMER_99) = (if restoreTimer w then TimerCallback env w else w)"

definition run :: "Env \<Rightarrow> (Env \<times> Message) list \<Rightarrow> World" where
  "run env0 msgs = foldl dispatch (InitInstance env0) msgs"

subsection \<open>Test fixtures\<close>

text \<open>
  A fake environment for the concrete runs: \<open>monitors\<close> monitors and one top-level
  window \<open>h\<close> of class \<open>cls\<close>, an overlapped window without parent, in show state
  \<open>cmd\<close> with its left edge at \<open>left\<close>.
\<close>

definition placement :: "nat \<Rightarrow> nat \<Rightarrow> int \<Rightarrow> WINDOWPLACEMENT" where
  "placement len cmd left =
     \<lparr>length_wp = len, flags = 0, showCmd = cmd,
      ptMinPosition = \<lparr>pt_x = - 1, pt_y = - 1\<rparr>, ptMaxPosition = \<lparr>pt_x = - 1, pt_y = - 1\<rparr>,
      rcNormalPosition = \<lparr>rc_left = left, rc_top = 100, rc_right = left + 800, rc_bottom = 700\<rparr>\<rparr>"

definition fake_env :: "int \<Rightarrow> HWND \<Rightarrow> string \<Rightarrow> nat \<Rightarrow> int \<Rightarrow> Env" where
  "fake_env monitors h cls cmd left =
     \<lparr>SM_CMONITORS = monitors,
      IsWindow = (\<lambda>w. w = h),
      IsWindowVisible = (\<lambda>w. w = h),
      GetParent = (\<lambda>w. NULL),
      GWL_STYLE = (\<lambda>w. 0x14CF0000),
      GWL_EXSTYLE = (\<lambda>w. 0x00000100),
      RealGetWindowClass = (\<lambda>w. cls),
      GetWindowPlacement = (\<lambda>w. Some (placement 44 cmd left)),
      EnumDesktopWindows = [h],
      uninitialised = (\<lambda>k i. placement 0 0 0)\<rparr>"

text \<open>A record as \<^verbatim>\<open>SetData\<close> leaves it for window \<open>h\<close> with two monitors.\<close>

definition saved :: "HWND \<Rightarrow> int \<Rightarrow> string \<Rightarrow> nat \<Rightarrow> int \<Rightarrow> SavedWindowData" where
  "saved h unused cls cmd left =
     \<lparr>m_nUnusedCount = unused,
      m_windowPlacement = (\<lambda>i. if i = 0 then placement 44 cmd left else placement 0 0 0),
      m_hwnd = h, m_wndClass = cls\<rparr>"

definition store :: "SavedWindowData list \<Rightarrow> int \<Rightarrow> InstanceData" where
  "store ds monitors = \<lparr>WindowData = ds, NumMonitors = monitors, InChangingState = False\<rparr>"

text \<open>Stores for the three cases of \<^verbatim>\<open>FindWindowSlot\<close>, searched for window 9.\<close>

definition store_match :: InstanceData where
  "store_match = store [saved 7 0 ''Notepad'' 1 2020, saved 9 3 ''Calculator'' 1 100] 2"

definition store_stale :: InstanceData where
  "store_stale = store [saved 7 0 ''Notepad'' 1 2020, saved 8 3 ''Notepad'' 1 2020] 2"

definition store_full :: InstanceData where
  "store_full = store [saved 7 0 ''Notepad'' 1 2020, saved 8 2 ''Notepad'' 1 2020] 2"

definition store_one_stale :: InstanceData where
  "store_one_stale = store [saved 7 3 ''Notepad'' 1 2020] 3"

definition store_counting :: InstanceData where
  "store_counting = store [saved 7 99 ''Notepad'' 1 2020, saved NULL 1 [] 0 0] 2"

text \<open>
  Two monitors, then three, then two again: the window is captured with two monitors, a
  third monitor arrives and the debounced handler runs, then the third monitor goes away
  and the handler runs again.
\<close>

definition decrease_trace :: "(Env \<times> Message) list" where
  "decrease_trace =
     [(fake_env 2 7 ''Notepad'' 1 2020, WinEvent EVENT_OBJECT_LOCATIONCHANGE 7),
      (fake_env 2 7 ''Notepad'' 1 2020, WM_TIMER_2),
      (fake_env 3 7 ''Notepad'' 1 2020, WM_DISPLAYCHANGE),
      (fake_env 3 7 ''Notepad'' 1 2020, WM_TIMER_99),
      (fake_env 2 7 ''Notepad'' 1 100, WM_DISPLAYCHANGE),
      (fake_env 2 7 ''Notepad'' 1 100, WM_TIMER_99)]"

text \<open>
  Two monitors with the window on the second one (left edge 2020) and captured there. The
  second monitor goes away: the window is moved to the remaining monitor (left edge 100),
  which arms the save timer, and the display change is announced. The monitor comes back
  before the save timer fires.
\<close>

definition collapsed_capture_trace :: "(Env \<times> Message) list" where
  "collapsed_capture_trace =
     [(fake_env 2 7 ''Notepad'' 1 2020, WinEvent EVENT_OBJECT_LOCATIONCHANGE 7),
      (fake_env 2 7 ''Notepad'' 1 2020, WM_TIMER_2),
      (fake_env 1 7 ''Notepad'' 1 100, WinEvent EVENT_OBJECT_LOCATIONCHANGE 7),
      (fake_env 1 7 ''Notepad'' 1 100, WM_DISPLAYCHANGE),
      (fake_env 2 7 ''Notepad'' 1 100, WM_DISPLAYCHANGE),
      (fake_env 2 7 ''Notepad'' 1 100, WM_TIMER_2),
      (fake_env 2 7 ''Notepad'' 1 100, WM_TIMER_99)]"

section \<open>Auxiliary facts\<close>

lemmas consts_defs = MAX_MONITORS_def MIN_MONITORTORESTORE_def SW_NORMAL_def SW_SHOWMINIMIZED_def
  SW_MAXIMIZE_def SW_SHOWNOACTIVATE_def SW_MINIMIZE_def SW_SHOWMINNOACTIVE_def
  WPF_ASYNCWINDOWPLACEMENT_def sizeof_WINDOWPLACEMENT_def NULL_def

lemma TagWindowsUnused_length:
  "length (WindowData (TagWindowsUnused s)) = length (WindowData s)"
  by (simp add: TagWindowsUnused_def)

lemma TagWindowsUnused_nth:
  "i < length (WindowData s) \<Longrightarrow>
   WindowData (TagWindowsUnused s) ! i =
     (let d = WindowData s ! i in
      if m_hwnd d \<noteq> NULL \<and> m_nUnusedCount d < 100
      then d\<lparr>m_nUnusedCount := m_nUnusedCount d + 1\<rparr> else d)"
  by (simp add: TagWindowsUnused_def Let_def)

lemma TagWindowsUnused_funpow_length:
  "length (WindowData ((TagWindowsUnused ^^ n) s)) = length (WindowData s)"
  by (induction n) (simp_all add: TagWindowsUnused_length)

text \<open>The closed form of \<open>n\<close> sweeps' worth of tagging.\<close>

lemma TagWindowsUnused_funpow_nth:
  "i < length (WindowData s) \<Longrightarrow>
   WindowData ((TagWindowsUnused ^^ n) s) ! i =
     (let d = WindowData s ! i in
      if m_hwnd d \<noteq> NULL \<and> m_nUnusedCount d < 100
      then d\<lparr>m_nUnusedCount := min 100 (m_nUnusedCount d + int n)\<rparr> else d)"
proof (induction n)
  case 0
  then show ?case by (simp add: Let_def)
next
  case (Suc n)
  let ?t = "(TagWindowsUnused ^^ n) s"
  have len: "i < length (WindowData ?t)"
    using Suc.prems by (simp add: TagWindowsUnused_funpow_length)
  show ?case
    using Suc.IH [OF Suc.prems] TagWindowsUnused_nth [OF len]
    by (auto simp: Let_def min_def)
qed

lemma first_index_Some:
  "first_index P xs = Some i \<Longrightarrow> i < length xs \<and> P (xs ! i) \<and> (\<forall>j<i. \<not> P (xs ! j))"
proof (induction xs arbitrary: i)
  case Nil
  then show ?case by simp
next
  case (Cons a as)
  show ?case
  proof (cases "P a")
    case True
    with Cons.prems show ?thesis by simp
  next
    case False
    with Cons.prems obtain k where k: "first_index P as = Some k" "i = Suc k"
      by auto
    from Cons.IH [OF k(1)] False k(2) show ?thesis
      by (auto simp: less_Suc_eq_0_disj)
  qed
qed

lemma first_index_None: "first_index P xs = None \<longleftrightarrow> (\<forall>a\<in>set xs. \<not> P a)"
  by (induction xs) auto

lemma new_SavedWindowData_length: "length (new_SavedWindowData env from n) = n"
  by (simp add: new_SavedWindowData_def)

lemma new_SavedWindowData_nth:
  "k < n \<Longrightarrow>
   new_SavedWindowData env from n ! k = SavedWindowData_ctor (uninitialised env (from + k))"
  by (simp add: new_SavedWindowData_def)

text \<open>The two guards on the snapshot sweep, and the guard on the restore pass.\<close>

lemma ProcessDesktopWindows_guard:
  "SM_CMONITORS env \<noteq> NumMonitors s \<Longrightarrow> ProcessDesktopWindows env s = s"
  by (simp add: ProcessDesktopWindows_def)

lemma WinEventProcCallback_guard:
  "InChangingState (g_Instance w) \<Longrightarrow> WinEventProcCallback w dwEvent hwnd = w"
  by (simp add: WinEventProcCallback_def)

lemma ProcessMonitors_restores_iff:
  "ProcessMonitors env s =
     (if SM_CMONITORS env > 1 \<and> SM_CMONITORS env \<noteq> NumMonitors s
      then (fst (RestoreWindowPositions env s (SM_CMONITORS env))
              \<lparr>NumMonitors := SM_CMONITORS env, InChangingState := False\<rparr>,
            snd (RestoreWindowPositions env s (SM_CMONITORS env)))
      else (s\<lparr>NumMonitors := SM_CMONITORS env, InChangingState := False\<rparr>, []))"
  by (auto simp: ProcessMonitors_def Let_def split: prod.splits)

section \<open>The restore trigger\<close>

text \<open>
  C1. The claim: the restore pass is invoked only when the observed monitor count has
  increased relative to the stored count, and a decrease, as from 3 monitors to 2, never
  triggers it. \<^verbatim>\<open>ProcessMonitors\<close> tests \<^verbatim>\<open>monitors > 1 && _NumMonitors != monitors\<close>. The
  run below reaches a stored count of 3 with nothing placed so far; the debounced handler
  then observes 2 monitors and the restore pass places window 7 at the geometry captured
  for two monitors.
\<close>

theorem restore_on_monitor_decrease:
  "NumMonitors (g_Instance (run (fake_env 2 7 ''Notepad'' 1 2020) (take 5 decrease_trace))) = 3
   \<and> placed (run (fake_env 2 7 ''Notepad'' 1 2020) (take 5 decrease_trace)) = []
   \<and> SM_CMONITORS (fst (decrease_trace ! 5)) = 2
   \<and> placed (run (fake_env 2 7 ''Notepad'' 1 2020) decrease_trace)
       = [(7, (placement 44 SW_SHOWNOACTIVATE 2020)\<lparr>flags := WPF_ASYNCWINDOWPLACEMENT\<rparr>)]"
  by code_simp

section \<open>Capture\<close>

text \<open>
  C2, as the code has it. For a monitor count outside 2..5, \<^verbatim>\<open>SetData\<close> returns false
  (skipped) and leaves every snapshot bucket as it was; the handle is stored, the unused
  counter is reset to 0 and the class is read again, as on a capture in range.
\<close>

theorem SetData_out_of_range:
  assumes "nMonitors < MIN_MONITORTORESTORE \<or> nMonitors > MAX_MONITORS"
  shows "SetData env d hwnd nMonitors =
           (d\<lparr>m_hwnd := hwnd, m_nUnusedCount := 0,
              m_wndClass := RealGetWindowClass env hwnd\<rparr>, False)
       \<and> m_windowPlacement (fst (SetData env d hwnd nMonitors)) = m_windowPlacement d"
  using assms by (auto simp: SetData_def Let_def)

theorem SetData_out_of_range_witness:
  "(1 < MIN_MONITORTORESTORE \<or> 1 > MAX_MONITORS)
   \<and> SetData (fake_env 1 7 ''Notepad'' 1 100) (saved 7 1 ''Notepad'' 1 2020) 7 1
       = (saved 7 0 ''Notepad'' 1 2020, False)"
  using SetData_out_of_range [where nMonitors = 1 and env = "fake_env 1 7 ''Notepad'' 1 100"
          and d = "saved 7 1 ''Notepad'' 1 2020" and hwnd = 7]
  by (simp add: consts_defs saved_def fake_env_def)

text \<open>
  C2, as the claim states it (the whole record unchanged), fails: a tracked window that
  one sweep has tagged (counter 1) has its counter back at 0 after a capture with one
  monitor, and likewise with six.
\<close>

theorem SetData_out_of_range_changes_record:
  "fst (SetData (fake_env 1 7 ''Notepad'' 1 100) (saved 7 1 ''Notepad'' 1 2020) 7 1)
     \<noteq> saved 7 1 ''Notepad'' 1 2020
   \<and> m_nUnusedCount (fst (SetData (fake_env 1 7 ''Notepad'' 1 100)
                              (saved 7 1 ''Notepad'' 1 2020) 7 1)) = 0
   \<and> m_nUnusedCount (saved 7 1 ''Notepad'' 1 2020) = 1
   \<and> fst (SetData (fake_env 6 7 ''Notepad'' 1 100) (saved 7 1 ''Notepad'' 1 2020) 7 6)
     \<noteq> saved 7 1 ''Notepad'' 1 2020"
  by (simp add: SetData_def consts_defs saved_def fake_env_def)

section \<open>Slot lookup\<close>

lemma FindWindowSlot_cases:
  "case FindWindowSlot env s hwnd of (s', i) \<Rightarrow>
     i < length (WindowData s')
     \<and> NumMonitors s' = NumMonitors s \<and> InChangingState s' = InChangingState s
     \<and> (if \<exists>d\<in>set (WindowData s). m_hwnd d = hwnd
        then s' = s \<and> m_hwnd (WindowData s ! i) = hwnd
             \<and> (\<forall>j<i. m_hwnd (WindowData s ! j) \<noteq> hwnd)
        else if \<exists>d\<in>set (WindowData s). m_hwnd d = NULL \<or> m_nUnusedCount d > 2
        then s' = s
             \<and> (m_hwnd (WindowData s ! i) = NULL \<or> m_nUnusedCount (WindowData s ! i) > 2)
             \<and> (\<forall>j<i. \<not> (m_hwnd (WindowData s ! j) = NULL
                          \<or> m_nUnusedCount (WindowData s ! j) > 2))
        else length (WindowData s') = length (WindowData s) + 32
             \<and> i = length (WindowData s)
             \<and> take (length (WindowData s)) (WindowData s') = WindowData s
             \<and> (\<forall>k<32. WindowData s' ! (length (WindowData s) + k)
                         = SavedWindowData_ctor (uninitialised env (length (WindowData s) + k))))"
proof (cases "first_index (\<lambda>d. m_hwnd d = hwnd) (WindowData s)")
  case (Some i)
  from first_index_Some [OF Some] have "\<exists>d\<in>set (WindowData s). m_hwnd d = hwnd"
    by (metis nth_mem)
  with first_index_Some [OF Some] Some show ?thesis
    by (simp add: FindWindowSlot_def)
next
  case None
  then have nomatch: "\<not> (\<exists>d\<in>set (WindowData s). m_hwnd d = hwnd)"
    by (simp add: first_index_None)
  show ?thesis
  proof (cases "first_index (\<lambda>d. m_hwnd d = NULL \<or> m_nUnusedCount d > 2) (WindowData s)")
    case (Some i)
    from first_index_Some [OF Some]
    have "\<exists>d\<in>set (WindowData s). m_hwnd d = NULL \<or> m_nUnusedCount d > 2"
      by (metis (mono_tags, lifting) nth_mem)
    with first_index_Some [OF Some] Some None nomatch show ?thesis
      by (simp add: FindWindowSlot_def)
  next
    case None2: None
    then have nofree:
      "\<not> (\<exists>d\<in>set (WindowData s). m_hwnd d = NULL \<or> m_nUnusedCount d > 2)"
      by (simp add: first_index_None)
    have "\<forall>k<32. (WindowData s @ drop (length (WindowData s))
                    (new_SavedWindowData env 0 (length (WindowData s) + 32)))
                 ! (length (WindowData s) + k)
               = SavedWindowData_ctor (uninitialised env (length (WindowData s) + k))"
      by (simp add: nth_append new_SavedWindowData_length new_SavedWindowData_nth)
    with None None2 nomatch nofree show ?thesis
      by (simp add: FindWindowSlot_def Let_def new_SavedWindowData_length)
  qed
qed

text \<open>
  C3. \<^verbatim>\<open>FindWindowSlot\<close> returns a slot inside the store it leaves behind. If some record
  has the handle, the store is unchanged and the slot is the first such record. Otherwise,
  if some record has no handle or an unused counter above 2, the store is unchanged and the
  slot is the first such record. Otherwise the store is 32 records longer, its old records
  are unchanged and in place, the slot is the one at the old length, and the 32 new
  records are as the constructor leaves them.
\<close>

theorem FindWindowSlot_search_order:
  assumes "FindWindowSlot env s hwnd = (s', i)"
  shows "i < length (WindowData s')
     \<and> NumMonitors s' = NumMonitors s \<and> InChangingState s' = InChangingState s
     \<and> (if \<exists>d\<in>set (WindowData s). m_hwnd d = hwnd
        then s' = s \<and> m_hwnd (WindowData s ! i) = hwnd
             \<and> (\<forall>j<i. m_hwnd (WindowData s ! j) \<noteq> hwnd)
        else if \<exists>d\<in>set (WindowData s). m_hwnd d = NULL \<or> m_nUnusedCount d > 2
        then s' = s
             \<and> (m_hwnd (WindowData s ! i) = NULL \<or> m_nUnusedCount (WindowData s ! i) > 2)
             \<and> (\<forall>j<i. \<not> (m_hwnd (WindowData s ! j) = NULL
                          \<or> m_nUnusedCount (WindowData s ! j) > 2))
        else length (WindowData s') = length (WindowData s) + 32
             \<and> i = length (WindowData s)
             \<and> take (length (WindowData s)) (WindowData s') = WindowData s
             \<and> (\<forall>k<32. WindowData s' ! (length (WindowData s) + k)
                         = SavedWindowData_ctor (uninitialised env (length (WindowData s) + k))))"
  using FindWindowSlot_cases [where env = env and s = s and hwnd = hwnd] assms by simp

theorem FindWindowSlot_search_order_witness:
  "FindWindowSlot (fake_env 2 9 ''Calculator'' 1 100) store_match 9 = (store_match, 1)
   \<and> m_hwnd (WindowData store_match ! 1) = 9
   \<and> FindWindowSlot (fake_env 2 9 ''Calculator'' 1 100) store_stale 9 = (store_stale, 1)
   \<and> m_nUnusedCount (WindowData store_stale ! 1) = 3
   \<and> snd (FindWindowSlot (fake_env 2 9 ''Calculator'' 1 100) store_full 9) = 2
   \<and> length (WindowData (fst (FindWindowSlot (fake_env 2 9 ''Calculator'' 1 100) store_full 9)))
       = 34
   \<and> take 2 (WindowData (fst (FindWindowSlot (fake_env 2 9 ''Calculator'' 1 100) store_full 9)))
       = WindowData store_full"
proof -
  let ?e = "fake_env 2 9 ''Calculator'' 1 100"
  have a: "FindWindowSlot ?e store_match 9 = (store_match, 1)"
    by (simp add: FindWindowSlot_def store_match_def store_def saved_def NULL_def)
  have b: "FindWindowSlot ?e store_stale 9 = (store_stale, 1)"
    by (simp add: FindWindowSlot_def store_stale_def store_def saved_def NULL_def)
  have c': "snd (FindWindowSlot ?e store_full 9) = 2"
    by (simp add: FindWindowSlot_def store_full_def store_def saved_def NULL_def Let_def)
  have c: "FindWindowSlot ?e store_full 9 = (fst (FindWindowSlot ?e store_full 9), 2)"
    using c' by (metis prod.collapse)
  have c1: "\<not> (\<exists>d\<in>set (WindowData store_full). m_hwnd d = 9)"
    by (simp add: store_full_def store_def saved_def)
  have c2: "\<not> (\<exists>d\<in>set (WindowData store_full). m_hwnd d = NULL \<or> m_nUnusedCount d > 2)"
    by (simp add: store_full_def store_def saved_def NULL_def)
  have c3: "length (WindowData store_full) = 2"
    by (simp add: store_full_def store_def)
  from FindWindowSlot_search_order [OF a] have "m_hwnd (WindowData store_match ! 1) = 9"
    by (simp add: store_match_def store_def saved_def)
  moreover from FindWindowSlot_search_order [OF b]
  have "m_nUnusedCount (WindowData store_stale ! 1) = 3"
    by (simp add: store_stale_def store_def saved_def)
  moreover from FindWindowSlot_search_order [OF c] c1 c2 c3
  have "length (WindowData (fst (FindWindowSlot ?e store_full 9))) = 34
      \<and> take 2 (WindowData (fst (FindWindowSlot ?e store_full 9))) = WindowData store_full"
    by simp
  ultimately show ?thesis using a b c' by simp
qed

section \<open>Staleness\<close>

text \<open>
  C4. After any number \<open>n\<close> of calls of \<^verbatim>\<open>TagWindowsUnused\<close>, the unused counter of every
  record is at least what it was, is at most 100 unless it was above 100 before (then it
  is what it was), and differs from what it was only if the record has a handle. In closed
  form: a record with a handle and a counter below 100 has its counter raised by \<open>n\<close>,
  stopping at 100; nothing else changes.
\<close>

theorem TagWindowsUnused_monotone_saturating:
  assumes "i < length (WindowData s)"
  shows "m_nUnusedCount (WindowData s ! i)
           \<le> m_nUnusedCount (WindowData ((TagWindowsUnused ^^ n) s) ! i)
       \<and> m_nUnusedCount (WindowData ((TagWindowsUnused ^^ n) s) ! i)
           \<le> max 100 (m_nUnusedCount (WindowData s ! i))
       \<and> (m_nUnusedCount (WindowData ((TagWindowsUnused ^^ n) s) ! i)
            \<noteq> m_nUnusedCount (WindowData s ! i) \<longrightarrow> m_hwnd (WindowData s ! i) \<noteq> NULL)
       \<and> WindowData ((TagWindowsUnused ^^ n) s) ! i =
           (if m_hwnd (WindowData s ! i) \<noteq> NULL \<and> m_nUnusedCount (WindowData s ! i) < 100
            then (WindowData s ! i)
                   \<lparr>m_nUnusedCount := min 100 (m_nUnusedCount (WindowData s ! i) + int n)\<rparr>
            else WindowData s ! i)
       \<and> length (WindowData ((TagWindowsUnused ^^ n) s)) = length (WindowData s)"
  using TagWindowsUnused_funpow_nth [OF assms, of n]
  by (auto simp: Let_def TagWindowsUnused_funpow_length)

theorem TagWindowsUnused_monotone_saturating_witness:
  "0 < length (WindowData store_counting)
   \<and> m_nUnusedCount (WindowData store_counting ! 0) = 99
   \<and> m_nUnusedCount (WindowData ((TagWindowsUnused ^^ 3) store_counting) ! 0) = 100
   \<and> m_hwnd (WindowData store_counting ! 0) \<noteq> NULL
   \<and> m_hwnd (WindowData store_counting ! 1) = NULL
   \<and> m_nUnusedCount (WindowData ((TagWindowsUnused ^^ 3) store_counting) ! 1) = 1"
  using TagWindowsUnused_monotone_saturating [where s = store_counting and i = 0 and n = 3]
        TagWindowsUnused_monotone_saturating [where s = store_counting and i = 1 and n = 3]
  by (simp add: store_counting_def store_def saved_def NULL_def)


section \<open>Restore\<close>

text \<open>
  C5. If the class the system reports for the record's handle differs from the stored
  class, \<^verbatim>\<open>RestoreWindow\<close> makes no call of \<^verbatim>\<open>SetWindowPlacement\<close> and leaves the record
  as it is, for every monitor count.
\<close>

theorem RestoreWindow_class_mismatch:
  assumes "RealGetWindowClass env (m_hwnd d) \<noteq> m_wndClass d"
  shows "RestoreWindow env d nMonitors = (d, [])"
  using assms by (simp add: RestoreWindow_def Let_def)

theorem RestoreWindow_class_mismatch_witness:
  "RealGetWindowClass (fake_env 2 7 ''Calculator'' 1 100) (m_hwnd (saved 7 0 ''Notepad'' 1 2020))
     \<noteq> m_wndClass (saved 7 0 ''Notepad'' 1 2020)
   \<and> RestoreWindow (fake_env 2 7 ''Calculator'' 1 100) (saved 7 0 ''Notepad'' 1 2020) 2
     = (saved 7 0 ''Notepad'' 1 2020, [])"
  using RestoreWindow_class_mismatch [where env = "fake_env 2 7 ''Calculator'' 1 100"
          and d = "saved 7 0 ''Notepad'' 1 2020" and nMonitors = 2]
  by (simp add: saved_def fake_env_def)

text \<open>
  C6. When \<^verbatim>\<open>RestoreWindow\<close> passes its checks (monitor count in 2..5, the handle is a
  window, the bucket holds a snapshot, the class matches) and \<open>wp\<close> is the snapshot of the
  bucket: for show state \<^verbatim>\<open>SW_MAXIMIZE\<close> there are exactly two calls, first \<open>wp\<close> with
  \<^verbatim>\<open>SW_SHOWNOACTIVATE\<close>, then \<open>wp\<close> with \<^verbatim>\<open>SW_MAXIMIZE\<close>; for \<^verbatim>\<open>SW_MINIMIZE\<close> or
  \<^verbatim>\<open>SW_SHOWMINIMIZED\<close> one call with \<^verbatim>\<open>SW_SHOWMINNOACTIVE\<close>; for \<^verbatim>\<open>SW_NORMAL\<close> one call
  with \<^verbatim>\<open>SW_SHOWNOACTIVATE\<close>. Every call carries the rectangle of \<open>wp\<close> and the
  asynchronous flag.
\<close>

theorem RestoreWindow_calls:
  assumes "MIN_MONITORTORESTORE \<le> nMonitors" and "nMonitors \<le> MAX_MONITORS"
      and "IsWindow env (m_hwnd d)"
      and "length_wp (m_windowPlacement d (nat (nMonitors - MIN_MONITORTORESTORE)))
             = sizeof_WINDOWPLACEMENT"
      and "RealGetWindowClass env (m_hwnd d) = m_wndClass d"
      and "wp = m_windowPlacement d (nat (nMonitors - MIN_MONITORTORESTORE))"
  shows "(showCmd wp = SW_MAXIMIZE \<longrightarrow>
            snd (RestoreWindow env d nMonitors) =
              [(m_hwnd d, wp\<lparr>flags := WPF_ASYNCWINDOWPLACEMENT, showCmd := SW_SHOWNOACTIVATE\<rparr>),
               (m_hwnd d, wp\<lparr>flags := WPF_ASYNCWINDOWPLACEMENT, showCmd := SW_MAXIMIZE\<rparr>)])
       \<and> (showCmd wp = SW_MINIMIZE \<or> showCmd wp = SW_SHOWMINIMIZED \<longrightarrow>
            snd (RestoreWindow env d nMonitors) =
              [(m_hwnd d, wp\<lparr>flags := WPF_ASYNCWINDOWPLACEMENT, showCmd := SW_SHOWMINNOACTIVE\<rparr>)])
       \<and> (showCmd wp = SW_NORMAL \<longrightarrow>
            snd (RestoreWindow env d nMonitors) =
              [(m_hwnd d, wp\<lparr>flags := WPF_ASYNCWINDOWPLACEMENT, showCmd := SW_SHOWNOACTIVATE\<rparr>)])"
  using assms by (simp add: RestoreWindow_def Let_def consts_defs)

theorem RestoreWindow_calls_witness:
  "snd (RestoreWindow (fake_env 2 7 ''Notepad'' 1 100) (saved 7 0 ''Notepad'' SW_MAXIMIZE 2020) 2)
     = [(7, (placement 44 SW_SHOWNOACTIVATE 2020)\<lparr>flags := WPF_ASYNCWINDOWPLACEMENT\<rparr>),
        (7, (placement 44 SW_MAXIMIZE 2020)\<lparr>flags := WPF_ASYNCWINDOWPLACEMENT\<rparr>)]
   \<and> snd (RestoreWindow (fake_env 2 7 ''Notepad'' 1 100)
            (saved 7 0 ''Notepad'' SW_SHOWMINIMIZED 2020) 2)
     = [(7, (placement 44 SW_SHOWMINNOACTIVE 2020)\<lparr>flags := WPF_ASYNCWINDOWPLACEMENT\<rparr>)]
   \<and> snd (RestoreWindow (fake_env 2 7 ''Notepad'' 1 100) (saved 7 0 ''Notepad'' SW_NORMAL 2020) 2)
     = [(7, (placement 44 SW_SHOWNOACTIVATE 2020)\<lparr>flags := WPF_ASYNCWINDOWPLACEMENT\<rparr>)]"
  using RestoreWindow_calls [where nMonitors = 2 and env = "fake_env 2 7 ''Notepad'' 1 100"
          and d = "saved 7 0 ''Notepad'' SW_MAXIMIZE 2020" and wp = "placement 44 SW_MAXIMIZE 2020"]
        RestoreWindow_calls [where nMonitors = 2 and env = "fake_env 2 7 ''Notepad'' 1 100"
          and d = "saved 7 0 ''Notepad'' SW_SHOWMINIMIZED 2020"
          and wp = "placement 44 SW_SHOWMINIMIZED 2020"]
        RestoreWindow_calls [where nMonitors = 2 and env = "fake_env 2 7 ''Notepad'' 1 100"
          and d = "saved 7 0 ''Notepad'' SW_NORMAL 2020" and wp = "placement 44 SW_NORMAL 2020"]
  by (simp add: saved_def fake_env_def placement_def consts_defs)

text \<open>
  C9. When \<^verbatim>\<open>RestoreWindow\<close> passes its checks, the snapshot \<open>wp'\<close> stored afterwards in
  the bucket is the snapshot \<open>wp\<close> stored before with its flags set to the asynchronous
  flag and its show state rewritten: minimized becomes \<^verbatim>\<open>SW_SHOWMINNOACTIVE\<close> and normal
  becomes \<^verbatim>\<open>SW_SHOWNOACTIVATE\<close>, both different from what was stored, while maximized is
  maximized again. Nothing else in the record changes. A later capture for the same
  monitor count that reads the placement \<open>p\<close> stores \<open>p\<close> in the bucket.
\<close>

theorem RestoreWindow_rewrites_snapshot:
  assumes "MIN_MONITORTORESTORE \<le> nMonitors" and "nMonitors \<le> MAX_MONITORS"
      and "IsWindow env (m_hwnd d)"
      and "length_wp (m_windowPlacement d (nat (nMonitors - MIN_MONITORTORESTORE)))
             = sizeof_WINDOWPLACEMENT"
      and "RealGetWindowClass env (m_hwnd d) = m_wndClass d"
      and "wp = m_windowPlacement d (nat (nMonitors - MIN_MONITORTORESTORE))"
      and "d' = fst (RestoreWindow env d nMonitors)"
      and "wp' = m_windowPlacement d' (nat (nMonitors - MIN_MONITORTORESTORE))"
  shows "flags wp' = WPF_ASYNCWINDOWPLACEMENT
       \<and> (showCmd wp = SW_MINIMIZE \<or> showCmd wp = SW_SHOWMINIMIZED \<longrightarrow>
            showCmd wp' = SW_SHOWMINNOACTIVE \<and> showCmd wp' \<noteq> showCmd wp)
       \<and> (showCmd wp = SW_NORMAL \<longrightarrow>
            showCmd wp' = SW_SHOWNOACTIVATE \<and> showCmd wp' \<noteq> showCmd wp)
       \<and> (showCmd wp = SW_MAXIMIZE \<longrightarrow> showCmd wp' = SW_MAXIMIZE)
       \<and> wp' = wp\<lparr>flags := flags wp', showCmd := showCmd wp'\<rparr>
       \<and> d' = d\<lparr>m_windowPlacement :=
                  (m_windowPlacement d)(nat (nMonitors - MIN_MONITORTORESTORE) := wp')\<rparr>
       \<and> (GetWindowPlacement env' (m_hwnd d) = Some p \<longrightarrow>
            m_windowPlacement (fst (SetData env' d' (m_hwnd d) nMonitors))
              (nat (nMonitors - MIN_MONITORTORESTORE)) = p)"
  using assms by (simp add: RestoreWindow_def SetData_def Let_def consts_defs)

theorem RestoreWindow_rewrites_snapshot_witness:
  "showCmd (m_windowPlacement (saved 7 0 ''Notepad'' SW_NORMAL 2020) 0) = SW_NORMAL
   \<and> showCmd (m_windowPlacement (fst (RestoreWindow (fake_env 2 7 ''Notepad'' 1 100)
       (saved 7 0 ''Notepad'' SW_NORMAL 2020) 2)) 0) = SW_SHOWNOACTIVATE
   \<and> flags (m_windowPlacement (fst (RestoreWindow (fake_env 2 7 ''Notepad'' 1 100)
       (saved 7 0 ''Notepad'' SW_NORMAL 2020) 2)) 0) = WPF_ASYNCWINDOWPLACEMENT
   \<and> showCmd (m_windowPlacement (fst (RestoreWindow (fake_env 2 7 ''Notepad'' 1 100)
       (saved 7 0 ''Notepad'' SW_SHOWMINIMIZED 2020) 2)) 0) = SW_SHOWMINNOACTIVE
   \<and> showCmd (m_windowPlacement (fst (RestoreWindow (fake_env 2 7 ''Notepad'' 1 100)
       (saved 7 0 ''Notepad'' SW_MAXIMIZE 2020) 2)) 0) = SW_MAXIMIZE
   \<and> m_windowPlacement (fst (SetData (fake_env 2 7 ''Notepad'' 1 100)
        (fst (RestoreWindow (fake_env 2 7 ''Notepad'' 1 100)
          (saved 7 0 ''Notepad'' SW_NORMAL 2020) 2)) 7 2)) 0 = placement 44 1 100"
  using RestoreWindow_rewrites_snapshot [where nMonitors = 2
          and env = "fake_env 2 7 ''Notepad'' 1 100"
          and d = "saved 7 0 ''Notepad'' SW_NORMAL 2020"
          and env' = "fake_env 2 7 ''Notepad'' 1 100"
          and p = "placement 44 1 100", OF _ _ _ _ _ refl refl refl]
        RestoreWindow_rewrites_snapshot [where nMonitors = 2
          and env = "fake_env 2 7 ''Notepad'' 1 100"
          and d = "saved 7 0 ''Notepad'' SW_SHOWMINIMIZED 2020"
          and env' = "fake_env 2 7 ''Notepad'' 1 100"
          and p = "placement 44 1 100", OF _ _ _ _ _ refl refl refl]
        RestoreWindow_rewrites_snapshot [where nMonitors = 2
          and env = "fake_env 2 7 ''Notepad'' 1 100"
          and d = "saved 7 0 ''Notepad'' SW_MAXIMIZE 2020"
          and env' = "fake_env 2 7 ''Notepad'' 1 100"
          and p = "placement 44 1 100", OF _ _ _ _ _ refl refl refl]
  by (simp add: saved_def fake_env_def placement_def consts_defs)


section \<open>Reclaimed slots\<close>

text \<open>
  C8. Let window \<open>hwnd\<close> be new to the store and let \<^verbatim>\<open>FindWindowSlot\<close> hand out an
  existing slot \<open>i\<close> for it. Then the slot was reclaimable (no handle, or an unused counter
  above 2). The capture for monitor count \<open>n\<close> writes the new handle, the counter 0, the
  new class and the bucket of \<open>n\<close>, which holds the placement \<open>p\<close> read for the window;
  every other bucket is still the one of the previous occupant. If the bucket of another
  monitor count \<open>k\<close> holds a snapshot, a restore for \<open>k\<close> passes the class check and
  applies the previous occupant's rectangle to the new window.
\<close>

theorem reclaimed_slot_keeps_other_buckets:
  assumes new: "\<forall>d\<in>set (WindowData s). m_hwnd d \<noteq> hwnd"
      and slot: "FindWindowSlot env s hwnd = (s', i)"
      and reuse: "i < length (WindowData s)"
      and n: "MIN_MONITORTORESTORE \<le> n" "n \<le> MAX_MONITORS"
      and k: "MIN_MONITORTORESTORE \<le> k" "k \<le> MAX_MONITORS" "k \<noteq> n"
      and cap: "SetData env (WindowData s' ! i) hwnd n = (d', ok)"
      and old: "length_wp (m_windowPlacement (WindowData s ! i) (nat (k - MIN_MONITORTORESTORE)))
                  = sizeof_WINDOWPLACEMENT"
      and win: "IsWindow env' hwnd"
      and cls: "RealGetWindowClass env' hwnd = RealGetWindowClass env hwnd"
  shows "s' = s
       \<and> (m_hwnd (WindowData s ! i) = NULL \<or> m_nUnusedCount (WindowData s ! i) > 2)
       \<and> ok \<and> m_hwnd d' = hwnd \<and> m_wndClass d' = RealGetWindowClass env hwnd
       \<and> m_windowPlacement d' (nat (k - MIN_MONITORTORESTORE))
           = m_windowPlacement (WindowData s ! i) (nat (k - MIN_MONITORTORESTORE))
       \<and> snd (RestoreWindow env' d' k) \<noteq> []
       \<and> (\<forall>c\<in>set (snd (RestoreWindow env' d' k)).
            fst c = hwnd
            \<and> rcNormalPosition (snd c)
                = rcNormalPosition
                    (m_windowPlacement (WindowData s ! i) (nat (k - MIN_MONITORTORESTORE))))
       \<and> m_nUnusedCount d' = 0
       \<and> (GetWindowPlacement env hwnd = Some p \<longrightarrow>
            m_windowPlacement d' (nat (n - MIN_MONITORTORESTORE)) = p)
       \<and> (GetWindowPlacement env hwnd = None \<longrightarrow>
            m_windowPlacement d' (nat (n - MIN_MONITORTORESTORE))
              = (m_windowPlacement (WindowData s ! i) (nat (n - MIN_MONITORTORESTORE)))
                  \<lparr>length_wp := sizeof_WINDOWPLACEMENT\<rparr>)
       \<and> (\<forall>j. j \<noteq> nat (n - MIN_MONITORTORESTORE) \<longrightarrow>
            m_windowPlacement d' j = m_windowPlacement (WindowData s ! i) j)"
proof -
  have nomatch: "first_index (\<lambda>d. m_hwnd d = hwnd) (WindowData s) = None"
    using new by (simp add: first_index_None)
  obtain j where
    j: "first_index (\<lambda>d. m_hwnd d = NULL \<or> m_nUnusedCount d > 2) (WindowData s) = Some j"
    using slot reuse nomatch
    by (cases "first_index (\<lambda>d. m_hwnd d = NULL \<or> m_nUnusedCount d > 2) (WindowData s)")
       (auto simp: FindWindowSlot_def Let_def)
  from slot nomatch j have eq: "s' = s" "i = j"
    by (simp_all add: FindWindowSlot_def)
  from first_index_Some [OF j] eq
  have free: "m_hwnd (WindowData s ! i) = NULL \<or> m_nUnusedCount (WindowData s ! i) > 2"
    by simp
  have idx: "nat (k - MIN_MONITORTORESTORE) \<noteq> nat (n - MIN_MONITORTORESTORE)"
    using n k by (simp add: consts_defs)
  from cap n eq
  have d': "ok" "m_hwnd d' = hwnd" "m_wndClass d' = RealGetWindowClass env hwnd"
       "m_nUnusedCount d' = 0"
    by (auto simp: SetData_def Let_def)
  from cap n eq
  have others: "\<forall>j. j \<noteq> nat (n - MIN_MONITORTORESTORE) \<longrightarrow>
                  m_windowPlacement d' j = m_windowPlacement (WindowData s ! i) j"
    by (auto simp: SetData_def Let_def)
  from cap n eq
  have written: "GetWindowPlacement env hwnd = Some p \<longrightarrow>
                   m_windowPlacement d' (nat (n - MIN_MONITORTORESTORE)) = p"
    by (auto simp: SetData_def Let_def)
  from cap n eq
  have failed: "GetWindowPlacement env hwnd = None \<longrightarrow>
            m_windowPlacement d' (nat (n - MIN_MONITORTORESTORE))
              = (m_windowPlacement (WindowData s ! i) (nat (n - MIN_MONITORTORESTORE)))
                  \<lparr>length_wp := sizeof_WINDOWPLACEMENT\<rparr>"
    by (auto simp: SetData_def Let_def)
  from others idx
  have kept: "m_windowPlacement d' (nat (k - MIN_MONITORTORESTORE))
          = m_windowPlacement (WindowData s ! i) (nat (k - MIN_MONITORTORESTORE))"
    by simp
  have calls: "snd (RestoreWindow env' d' k) \<noteq> []
       \<and> (\<forall>c\<in>set (snd (RestoreWindow env' d' k)).
            fst c = hwnd
            \<and> rcNormalPosition (snd c)
                = rcNormalPosition
                    (m_windowPlacement (WindowData s ! i) (nat (k - MIN_MONITORTORESTORE))))"
    using d' kept k old win cls by (simp add: RestoreWindow_def Let_def)
  from eq free d' kept calls written failed others show ?thesis by simp
qed

text \<open>
  The slot of the closed Notepad window 7, captured with two monitors at left edge 2020,
  goes to the Calculator window 9, captured with three monitors at left edge 100: the
  three-monitor bucket then holds left edge 100, the two-monitor bucket still holds left
  edge 2020, and the restore for two monitors places window 9 at left edge 2020.
\<close>

theorem reclaimed_slot_keeps_other_buckets_witness:
  "FindWindowSlot (fake_env 3 9 ''Calculator'' 1 100) store_one_stale 9 = (store_one_stale, 0)
   \<and> m_hwnd (WindowData store_one_stale ! 0) = 7
   \<and> m_wndClass (WindowData store_one_stale ! 0) = ''Notepad''
   \<and> m_windowPlacement (WindowData store_one_stale ! 0) 1 = placement 0 0 0
   \<and> m_hwnd (fst (SetData (fake_env 3 9 ''Calculator'' 1 100)
                    (WindowData store_one_stale ! 0) 9 3)) = 9
   \<and> m_wndClass (fst (SetData (fake_env 3 9 ''Calculator'' 1 100)
                    (WindowData store_one_stale ! 0) 9 3)) = ''Calculator''
   \<and> m_nUnusedCount (fst (SetData (fake_env 3 9 ''Calculator'' 1 100)
                    (WindowData store_one_stale ! 0) 9 3)) = 0
   \<and> m_windowPlacement (fst (SetData (fake_env 3 9 ''Calculator'' 1 100)
                    (WindowData store_one_stale ! 0) 9 3)) 1 = placement 44 SW_NORMAL 100
   \<and> m_windowPlacement (fst (SetData (fake_env 3 9 ''Calculator'' 1 100)
                    (WindowData store_one_stale ! 0) 9 3)) 0 = placement 44 SW_NORMAL 2020
   \<and> snd (RestoreWindow (fake_env 2 9 ''Calculator'' 1 100)
         (fst (SetData (fake_env 3 9 ''Calculator'' 1 100) (WindowData store_one_stale ! 0) 9 3)) 2)
     = [(9, (placement 44 SW_SHOWNOACTIVATE 2020)\<lparr>flags := WPF_ASYNCWINDOWPLACEMENT\<rparr>)]"
proof -
  let ?e = "fake_env 3 9 ''Calculator'' 1 100"
  let ?e' = "fake_env 2 9 ''Calculator'' 1 100"
  let ?d = "fst (SetData ?e (WindowData store_one_stale ! 0) 9 3)"
  have new: "\<forall>d\<in>set (WindowData store_one_stale). m_hwnd d \<noteq> 9"
    by (simp add: store_one_stale_def store_def saved_def)
  have slot: "FindWindowSlot ?e store_one_stale 9 = (store_one_stale, 0)"
    by (simp add: FindWindowSlot_def store_one_stale_def store_def saved_def NULL_def)
  have reuse: "0 < length (WindowData store_one_stale)"
    by (simp add: store_one_stale_def store_def)
  have n: "MIN_MONITORTORESTORE \<le> 3" "3 \<le> MAX_MONITORS"
    by (simp_all add: consts_defs)
  have k: "MIN_MONITORTORESTORE \<le> 2" "2 \<le> MAX_MONITORS" "(2::int) \<noteq> 3"
    by (simp_all add: consts_defs)
  have cap: "SetData ?e (WindowData store_one_stale ! 0) 9 3
               = (?d, snd (SetData ?e (WindowData store_one_stale ! 0) 9 3))"
    by simp
  have old: "length_wp (m_windowPlacement (WindowData store_one_stale ! 0)
                          (nat (2 - MIN_MONITORTORESTORE)))
               = sizeof_WINDOWPLACEMENT"
    by (simp add: store_one_stale_def store_def saved_def placement_def consts_defs)
  have win: "IsWindow ?e' 9"
    by (simp add: fake_env_def)
  have cls: "RealGetWindowClass ?e' 9 = RealGetWindowClass ?e 9"
    by (simp add: fake_env_def)
  have got: "GetWindowPlacement ?e 9 = Some (placement 44 SW_NORMAL 100)"
    by (simp add: fake_env_def consts_defs)
  have i3: "nat (3 - MIN_MONITORTORESTORE) = 1" and i2: "nat (2 - MIN_MONITORTORESTORE) = 0"
    by (simp_all add: consts_defs)
  have cl: "RealGetWindowClass ?e 9 = ''Calculator''"
    by (simp add: fake_env_def)
  have before: "m_hwnd (WindowData store_one_stale ! 0) = 7"
       "m_wndClass (WindowData store_one_stale ! 0) = ''Notepad''"
       "m_windowPlacement (WindowData store_one_stale ! 0) 1 = placement 0 0 0"
       "m_windowPlacement (WindowData store_one_stale ! 0) 0 = placement 44 SW_NORMAL 2020"
    by (simp_all add: store_one_stale_def store_def saved_def consts_defs)
  note t = reclaimed_slot_keeps_other_buckets
             [where p = "placement 44 SW_NORMAL 100", OF new slot reuse n k cap old win cls]
  from t got i3 i2 cl before
  have after: "m_hwnd ?d = 9" "m_wndClass ?d = ''Calculator''" "m_nUnusedCount ?d = 0"
       "m_windowPlacement ?d 1 = placement 44 SW_NORMAL 100"
       "m_windowPlacement ?d 0 = placement 44 SW_NORMAL 2020"
    by simp_all
  have calls: "snd (RestoreWindow ?e' ?d 2)
     = [(9, (placement 44 SW_SHOWNOACTIVATE 2020)\<lparr>flags := WPF_ASYNCWINDOWPLACEMENT\<rparr>)]"
    by (simp add: RestoreWindow_def SetData_def store_one_stale_def store_def saved_def
                  consts_defs fake_env_def Let_def placement_def)
  from slot before after calls show ?thesis by simp
qed

section \<open>The display-change protocol\<close>

text \<open>
  C7. The claim: no sweep captures geometry while a display transition is in progress, so
  the collapsed single-monitor layout is never saved into a multi-monitor bucket. The two
  guards are there (\<open>ProcessDesktopWindows_guard\<close>, \<open>WinEventProcCallback_guard\<close>), but
  \<^verbatim>\<open>SaveTimerCallback\<close> does not look at \<^verbatim>\<open>InChangingState\<close>, so a save timer armed before
  the display change still sweeps. In the run below the stored count is 2 throughout.
  After five messages \<^verbatim>\<open>InChangingState\<close> is set and the two-monitor bucket of window 7
  holds the layout on the second monitor (left edge 2020). The sixth message is the save
  timer: the observed count is 2 again, the sweep runs with the flag still set and
  overwrites the bucket with the collapsed layout (left edge 100). The debounced handler
  then sees no change of count and places nothing.
\<close>

theorem sweep_captures_while_InChangingState:
  "InChangingState (g_Instance
      (run (fake_env 2 7 ''Notepad'' 1 2020) (take 5 collapsed_capture_trace)))
   \<and> NumMonitors (g_Instance
      (run (fake_env 2 7 ''Notepad'' 1 2020) (take 5 collapsed_capture_trace))) = 2
   \<and> m_windowPlacement (WindowData (g_Instance
        (run (fake_env 2 7 ''Notepad'' 1 2020) (take 5 collapsed_capture_trace))) ! 0) 0
       = placement 44 SW_NORMAL 2020
   \<and> snd (collapsed_capture_trace ! 5) = WM_TIMER_2
   \<and> SM_CMONITORS (fst (collapsed_capture_trace ! 5)) = 2
   \<and> InChangingState (g_Instance
      (run (fake_env 2 7 ''Notepad'' 1 2020) (take 6 collapsed_capture_trace)))
   \<and> m_windowPlacement (WindowData (g_Instance
        (run (fake_env 2 7 ''Notepad'' 1 2020) (take 6 collapsed_capture_trace))) ! 0) 0
       = placement 44 SW_NORMAL 100
   \<and> placed (run (fake_env 2 7 ''Notepad'' 1 2020) collapsed_capture_trace) = []"
  by code_simp

text \<open>
  C10. \<^verbatim>\<open>ProcessMonitors\<close> always stores the observed monitor count and clears
  \<^verbatim>\<open>InChangingState\<close>. When the observed count is at most 1 or equals the stored count,
  it makes no call of \<^verbatim>\<open>SetWindowPlacement\<close> and leaves the records as they are. After
  it, with the same environment, \<^verbatim>\<open>ProcessDesktopWindows\<close> does sweep, and a location
  event for a window arms the save timer.
\<close>

theorem ProcessMonitors_always_commits:
  "NumMonitors (fst (ProcessMonitors env s)) = SM_CMONITORS env
   \<and> \<not> InChangingState (fst (ProcessMonitors env s))
   \<and> (SM_CMONITORS env \<le> 1 \<or> SM_CMONITORS env = NumMonitors s \<longrightarrow>
        snd (ProcessMonitors env s) = []
        \<and> WindowData (fst (ProcessMonitors env s)) = WindowData s)
   \<and> ProcessDesktopWindows env (fst (ProcessMonitors env s)) =
        foldl (SaveWindowsCallback env (SM_CMONITORS env))
              (TagWindowsUnused (fst (ProcessMonitors env s))) (EnumDesktopWindows env)
   \<and> (hwnd \<noteq> NULL \<longrightarrow>
        saveTimer (WinEventProcCallback (w\<lparr>g_Instance := fst (ProcessMonitors env s)\<rparr>)
                     EVENT_OBJECT_LOCATIONCHANGE hwnd))"
  by (auto simp: ProcessMonitors_def ProcessDesktopWindows_def WinEventProcCallback_def Let_def
           split: prod.splits)

theorem ProcessMonitors_always_commits_witness:
  "SM_CMONITORS (fake_env 1 7 ''Notepad'' 1 100) \<le> 1
   \<and> InChangingState ((store [saved 7 0 ''Notepad'' 1 2020] 2)\<lparr>InChangingState := True\<rparr>)
   \<and> NumMonitors (fst (ProcessMonitors (fake_env 1 7 ''Notepad'' 1 100)
       ((store [saved 7 0 ''Notepad'' 1 2020] 2)\<lparr>InChangingState := True\<rparr>))) = 1
   \<and> \<not> InChangingState (fst (ProcessMonitors (fake_env 1 7 ''Notepad'' 1 100)
       ((store [saved 7 0 ''Notepad'' 1 2020] 2)\<lparr>InChangingState := True\<rparr>)))
   \<and> snd (ProcessMonitors (fake_env 1 7 ''Notepad'' 1 100)
       ((store [saved 7 0 ''Notepad'' 1 2020] 2)\<lparr>InChangingState := True\<rparr>)) = []
   \<and> WindowData (fst (ProcessMonitors (fake_env 1 7 ''Notepad'' 1 100)
       ((store [saved 7 0 ''Notepad'' 1 2020] 2)\<lparr>InChangingState := True\<rparr>)))
       = [saved 7 0 ''Notepad'' 1 2020]
   \<and> saveTimer (WinEventProcCallback
       (\<lparr>g_Instance = fst (ProcessMonitors (fake_env 1 7 ''Notepad'' 1 100)
            ((store [saved 7 0 ''Notepad'' 1 2020] 2)\<lparr>InChangingState := True\<rparr>)),
         saveTimer = False, restoreTimer = False, placed = []\<rparr>)
       EVENT_OBJECT_LOCATIONCHANGE 7)"
  using ProcessMonitors_always_commits [where env = "fake_env 1 7 ''Notepad'' 1 100"
      and s = "(store [saved 7 0 ''Notepad'' 1 2020] 2)\<lparr>InChangingState := True\<rparr>"
      and hwnd = 7
      and w = "\<lparr>g_Instance = store [] 0, saveTimer = False, restoreTimer = False, placed = []\<rparr>"]
  by (simp add: fake_env_def store_def NULL_def)


end
